theory Spec2Isabelle
  imports
    Main
    "HOL-Library.Char_ord"
    "HOL-Library.List_Lexorder"
    "HOL-Library.Multiset"
    "HOL-Library.AList"
    "HOL-Library.Word"
begin

section \<open>The media gallery application (app.py)\<close>

text \<open>
  The application is a Flask program with three routes: \<open>index\<close> (GET /),
  \<open>upload_file\<close> (POST /upload) and \<open>get_videos\<close> (GET /api/videos).
  Python's \<open>str\<close> is modelled by \<open>string\<close>; characters are compared by their
  code, as Python compares code points. The file system, the random UUID generator and
  the faults of the operating system are explicit arguments of the handlers.
\<close>

subsection \<open>Python string operations\<close>

text \<open>
  \<open>str.lower()\<close> on the ASCII letters. Outside ASCII Python lowers more letters, but
  the only non-ASCII code point whose lower case is a single ASCII letter is the Kelvin
  sign (to \<open>k\<close>), and no whitelisted extension contains a \<open>k\<close>; so membership of a
  lowered string in the whitelist is the same.
\<close>

definition lower_char :: "char \<Rightarrow> char" where
  "lower_char c =
     (case map_of (zip ''ABCDEFGHIJKLMNOPQRSTUVWXYZ'' ''abcdefghijklmnopqrstuvwxyz'') c of
        Some l \<Rightarrow> l
      | None \<Rightarrow> c)"

definition lower :: "string \<Rightarrow> string" where
  "lower s = map lower_char s"

text \<open>
  \<open>s.rsplit(sep, 1)\<close>: the string is cut at the last occurrence of the separator;
  without an occurrence the result is the one-element list \<open>[s]\<close>.
\<close>

definition rsplit1 :: "char \<Rightarrow> string \<Rightarrow> string list" where
  "rsplit1 sep s =
     (if sep \<in> set s
      then [rev (drop 1 (dropWhile (\<lambda>c. c \<noteq> sep) (rev s))),
            rev (takeWhile (\<lambda>c. c \<noteq> sep) (rev s))]
      else [s])"

text \<open>\<open>s.split(sep)\<close> with a one-character separator: empty pieces are kept.\<close>

fun split :: "char \<Rightarrow> string \<Rightarrow> string list" where
  "split sep [] = [[]]"
| "split sep (c # cs) =
     (if c = sep then [] # split sep cs
      else (c # hd (split sep cs)) # tl (split sep cs))"

text \<open>
  \<open>s.split()\<close> without an argument: the pieces between runs of white space, none of
  them empty. The first argument is the piece being read.
\<close>

definition is_space :: "char \<Rightarrow> bool" where
  "is_space c = (c \<in> set [CHR 0x09, CHR 0x0A, CHR 0x0B, CHR 0x0C, CHR 0x0D,
                          CHR 0x1C, CHR 0x1D, CHR 0x1E, CHR 0x1F, CHR 0x20])"

fun split_ws :: "string \<Rightarrow> string \<Rightarrow> string list" where
  "split_ws cur [] = (if cur = [] then [] else [cur])"
| "split_ws cur (c # cs) =
     (if is_space c then (if cur = [] then split_ws [] cs else cur # split_ws [] cs)
      else split_ws (cur @ [c]) cs)"

text \<open>\<open>sep.join(pieces)\<close>.\<close>

fun join :: "string \<Rightarrow> string list \<Rightarrow> string" where
  "join sep [] = []"
| "join sep [p] = p"
| "join sep (p # q # ps) = p @ sep @ join sep (q # ps)"

text \<open>\<open>s.strip(chars)\<close>: leading and trailing characters of \<open>chars\<close> are removed.\<close>

definition strip :: "string \<Rightarrow> string \<Rightarrow> string" where
  "strip chars s =
     rev (dropWhile (\<lambda>c. c \<in> set chars) (rev (dropWhile (\<lambda>c. c \<in> set chars) s)))"

subsection \<open>The extension whitelist\<close>

definition ALLOWED_EXTENSIONS :: "string set" where
  "ALLOWED_EXTENSIONS =
     {''mp4'', ''avi'', ''mov'', ''wmv'', ''flv'', ''webm'', ''jpg'', ''jpeg'', ''png'', ''gif''}"

text \<open>
  \<open>'.' in filename and filename.rsplit('.', 1)[1].lower() in ALLOWED_EXTENSIONS\<close>.
  The second operand is evaluated only when the name has a dot, and then the split has
  two pieces, so the index 1 is in range.
\<close>

definition allowed_file :: "string \<Rightarrow> bool" where
  "allowed_file filename =
     (if CHR ''.'' \<in> set filename
      then lower (rsplit1 CHR ''.'' filename ! 1) \<in> ALLOWED_EXTENSIONS
      else False)"

subsection \<open>The libraries the application calls\<close>

text \<open>
  The handlers call the Python standard library (\<open>os\<close>, \<open>uuid\<close>), Werkzeug
  (\<open>secure_filename\<close>, \<open>FileStorage\<close>) and Flask (\<open>jsonify\<close>, \<open>url_for\<close>,
  \<open>render_template\<close>). What these calls compute is written out below for a POSIX
  system. Three things are left open and are fields of \<open>runtime\<close>: the random UUIDs,
  the Unicode folding that \<open>secure_filename\<close> starts with, and the URL builder.
\<close>

record runtime =
  uuid4 :: "nat \<Rightarrow> 128 word"
    \<comment> \<open>the value of the UUID that the k-th call of \<open>uuid.uuid4()\<close> returns\<close>
  nfkd_ascii :: "string \<Rightarrow> string"
    \<comment> \<open>\<open>unicodedata.normalize('NFKD', s).encode('ascii', 'ignore').decode('ascii')\<close>\<close>
  url_for :: "string \<Rightarrow> string \<Rightarrow> string"
    \<comment> \<open>\<open>url_for(endpoint, filename=...)\<close>\<close>

paragraph \<open>str(uuid)\<close>

text \<open>
  \<open>str\<close> of a UUID prints its 128-bit value as 32 lower-case hexadecimal digits,
  grouped 8-4-4-4-12 with hyphens.
\<close>

definition hex_digit :: "nat \<Rightarrow> char" where
  "hex_digit d = ''0123456789abcdef'' ! (d mod 16)"

fun hex :: "nat \<Rightarrow> nat \<Rightarrow> string" where
  "hex 0 n = []"
| "hex (Suc k) n = hex k (n div 16) @ [hex_digit (n mod 16)]"

definition uuid_str :: "128 word \<Rightarrow> string" where
  "uuid_str u =
     (let h = hex 32 (unat u)
      in take 8 h @ ''-'' @ take 4 (drop 8 h) @ ''-'' @ take 4 (drop 12 h) @ ''-'' @
         take 4 (drop 16 h) @ ''-'' @ drop 20 h)"

paragraph \<open>werkzeug.utils.secure_filename\<close>

text \<open>
  After the Unicode folding, every path separator becomes a space, the pieces between
  white space are joined by underscores, every character outside \<open>[A-Za-z0-9_.-]\<close> is
  deleted, and leading and trailing dots and underscores are stripped. (The extra rule
  for Windows device names applies on Windows only.)
\<close>

definition safe_chars :: "string" where
  "safe_chars =
     ''ABCDEFGHIJKLMNOPQRSTUVWXYZabcdefghijklmnopqrstuvwxyz0123456789_.-''"

definition secure_filename :: "runtime \<Rightarrow> string \<Rightarrow> string" where
  "secure_filename R name =
     strip ''._''
       (filter (\<lambda>c. c \<in> set safe_chars)
          (join ''_''
             (split_ws []
                (map (\<lambda>c. if c = CHR ''/'' then CHR '' '' else c) (nfkd_ascii R name)))))"

paragraph \<open>os.path\<close>

text \<open>\<open>os.path.join(a, b)\<close>: an absolute second argument replaces the first.\<close>

definition path_join :: "string \<Rightarrow> string \<Rightarrow> string" where
  "path_join a b =
     (if take 1 b = ''/'' then b
      else if a = [] \<or> last a = CHR ''/'' then a @ b
      else a @ ''/'' @ b)"

text \<open>
  The file that a path names is found as \<open>os.path.normpath\<close> finds it: empty
  components and \<open>.\<close> are dropped, \<open>..\<close> removes the component before it. The result
  is the list of the components that remain, below the working directory, or below the
  root (then the list starts with \<open>/\<close>). Symbolic links are not modelled.
\<close>

definition norm_step :: "bool \<Rightarrow> string list \<Rightarrow> string \<Rightarrow> string list" where
  "norm_step absolute comps part =
     (if part = [] \<or> part = ''.'' then comps
      else if part \<noteq> ''..'' \<or> (\<not> absolute \<and> comps = []) \<or> (comps \<noteq> [] \<and> last comps = ''..'')
      then comps @ [part]
      else butlast comps)"

definition resolve :: "string \<Rightarrow> string list" where
  "resolve path =
     (let absolute = (take 1 path = ''/'');
          comps = foldl (norm_step absolute) [] (split CHR ''/'' path)
      in if absolute then ''/'' # comps else comps)"

paragraph \<open>The file system\<close>

datatype node = Dir | File string

record world =
  fs :: "(string list \<times> node) list"
    \<comment> \<open>what exists, by resolved path; the first entry for a path counts\<close>
  draws :: nat
    \<comment> \<open>how many UUIDs have been generated so far\<close>

datatype py_exception =
    FileNotFoundError string
  | NotADirectoryError string
  | IsADirectoryError string
  | FileExistsError string
  | OSError string

text \<open>\<open>str(e)\<close>: the description of the cause.\<close>

fun str_exc :: "py_exception \<Rightarrow> string" where
  "str_exc (FileNotFoundError p) = ''[Errno 2] No such file or directory: '' @ p"
| "str_exc (NotADirectoryError p) = ''[Errno 20] Not a directory: '' @ p"
| "str_exc (IsADirectoryError p) = ''[Errno 21] Is a directory: '' @ p"
| "str_exc (FileExistsError p) = ''[Errno 17] File exists: '' @ p"
| "str_exc (OSError msg) = msg"

definition is_file :: "node option \<Rightarrow> bool" where
  "is_file n = (case n of Some (File _) \<Rightarrow> True | _ \<Rightarrow> False)"

text \<open>\<open>os.listdir(path)\<close>: the names of the entries of a directory, in no particular order.\<close>

definition listdir :: "string \<Rightarrow> world \<Rightarrow> py_exception + string list" where
  "listdir path w =
     (let d = resolve path
      in case map_of (fs w) d of
           None \<Rightarrow> Inl (FileNotFoundError path)
         | Some (File _) \<Rightarrow> Inl (NotADirectoryError path)
         | Some Dir \<Rightarrow>
             Inr [last l. l \<leftarrow> remdups (map fst (fs w)), l \<noteq> [] \<and> butlast l = d])"

text \<open>
  \<open>os.makedirs(name, exist_ok=True)\<close>: the directory and every missing ancestor are
  created. It raises when a component of the path is a regular file, or when the operating
  system refuses (the fault, with its message).
\<close>

definition mkdir_missing :: "(string list \<times> node) list \<Rightarrow> string list \<Rightarrow> (string list \<times> node) list" where
  "mkdir_missing al p = (if map_of al p = None then al @ [(p, Dir)] else al)"

definition makedirs :: "string option \<Rightarrow> string \<Rightarrow> world \<Rightarrow> py_exception + world" where
  "makedirs fault name w =
     (case fault of
        Some msg \<Rightarrow> Inl (OSError msg)
      | None \<Rightarrow>
          (let d = resolve name;
               ps = map (\<lambda>n. take n d) [1..<Suc (length d)]
           in if is_file (map_of (fs w) d) then Inl (FileExistsError name)
              else if list_ex (\<lambda>p. is_file (map_of (fs w) p)) ps then Inl (NotADirectoryError name)
              else Inr (w\<lparr>fs := foldl mkdir_missing (fs w) ps\<rparr>)))"

text \<open>
  \<open>FileStorage.save(dst)\<close> opens \<open>dst\<close> for writing and copies the uploaded bytes into
  it. Opening fails on a directory and in a missing directory. The operating system may
  fail the write (the fault: its message, and how many bytes a truncated file keeps, if a
  file is left behind at all).
\<close>

definition save :: "(string \<times> nat option) option \<Rightarrow> string \<Rightarrow> string \<Rightarrow> world
    \<Rightarrow> py_exception option \<times> world" where
  "save fault content dst w =
     (let l = resolve dst
      in case map_of (fs w) l of
           Some Dir \<Rightarrow> (Some (IsADirectoryError dst), w)
         | _ \<Rightarrow>
           (case map_of (fs w) (butlast l) of
              None \<Rightarrow> (Some (FileNotFoundError dst), w)
            | Some (File _) \<Rightarrow> (Some (NotADirectoryError dst), w)
            | Some Dir \<Rightarrow>
                (case fault of
                   None \<Rightarrow> (None, w\<lparr>fs := AList.update l (File content) (fs w)\<rparr>)
                 | Some (msg, None) \<Rightarrow> (Some (OSError msg), w)
                 | Some (msg, Some n) \<Rightarrow>
                     (Some (OSError msg),
                      w\<lparr>fs := AList.update l (File (take n content)) (fs w)\<rparr>))))"

paragraph \<open>Flask responses\<close>

datatype json = JBool bool | JStr string | JList "json list" | JDict "(string \<times> json) list"

datatype body = Json json | Text string | Template string "string list"

record response =
  status :: nat
  body :: body

text \<open>\<open>jsonify\<close> and \<open>render_template\<close> answer with status 200.\<close>

definition jsonify :: "json \<Rightarrow> response" where
  "jsonify j = \<lparr>status = 200, body = Json j\<rparr>"

definition render_template :: "string \<Rightarrow> string list \<Rightarrow> response" where
  "render_template name video_sources = \<lparr>status = 200, body = Template name video_sources\<rparr>"

subsection \<open>Requests\<close>

text \<open>
  A request as the handler sees it, after Flask has parsed the multipart form:
  \<open>request.files\<close> maps the names of the fields to the uploaded files; a
  \<open>FileStorage\<close> is true exactly when its file name is not empty. The faults of the
  operating system during one request are \<open>io\<close>.
\<close>

record file_storage =
  filename :: string
  stream :: string

record request =
  files :: "(string \<times> file_storage) list"

record io =
  makedirs_fault :: "string option"
  save_fault :: "(string \<times> nat option) option"

definition file_bool :: "file_storage \<Rightarrow> bool" where
  "file_bool file = (filename file \<noteq> [])"

subsection \<open>Configuration\<close>

text \<open>
  Both directories are the same path. \<open>MAX_CONTENT_LENGTH\<close> is a setting that Flask
  reads; no handler of the application looks at it.
\<close>

definition VIDEO_DIR :: string where
  "VIDEO_DIR = path_join ''static'' ''videos''"

definition UPLOAD_FOLDER :: string where
  "UPLOAD_FOLDER = path_join ''static'' ''videos''"

definition MAX_CONTENT_LENGTH :: nat where
  "MAX_CONTENT_LENGTH = 100 * 1024 * 1024"

subsection \<open>The route handlers\<close>

text \<open>
  The scan that \<open>index\<close> and \<open>get_videos\<close> both start with:
  \<open>sorted([f for f in os.listdir(VIDEO_DIR) if allowed_file(f)])\<close>, then one URL for each
  name, \<open>url_for('static', filename=f'videos/{filename}')\<close>.
\<close>

definition video_files :: "world \<Rightarrow> py_exception + string list" where
  "video_files w =
     (case listdir VIDEO_DIR w of
        Inl e \<Rightarrow> Inl e
      | Inr names \<Rightarrow> Inr (sort (filter allowed_file names)))"

definition video_urls :: "runtime \<Rightarrow> string list \<Rightarrow> string list" where
  "video_urls R names = map (\<lambda>name. url_for R ''static'' (''videos/'' @ name)) names"

text \<open>
  GET /. Only \<open>FileNotFoundError\<close> is caught; any other exception leaves the handler
  (\<open>Inl\<close>). The line printed on the console is not modelled.
\<close>

definition index :: "runtime \<Rightarrow> world \<Rightarrow> py_exception + response" where
  "index R w =
     (case video_files w of
        Inr names \<Rightarrow> Inr (render_template ''index.html'' (video_urls R names))
      | Inl (FileNotFoundError _) \<Rightarrow>
          Inr \<lparr>status = 500,
               body = Text ''Error: Video directory not found. Please create it and add videos.''\<rparr>
      | Inl e \<Rightarrow> Inl e)"

text \<open>GET /api/videos.\<close>

definition get_videos :: "runtime \<Rightarrow> world \<Rightarrow> py_exception + response" where
  "get_videos R w =
     (case video_files w of
        Inr names \<Rightarrow> Inr (jsonify (JDict [(''videos'', JList (map JStr (video_urls R names)))]))
      | Inl (FileNotFoundError _) \<Rightarrow> Inr (jsonify (JDict [(''videos'', JList [])]))
      | Inl e \<Rightarrow> Inl e)"

text \<open>
  POST /upload. The name under which an accepted file is stored, and its path:
  \<open>f"{uuid.uuid4()}_{original_filename}"\<close> below \<open>UPLOAD_FOLDER\<close>.
\<close>

definition stored_name :: "runtime \<Rightarrow> world \<Rightarrow> file_storage \<Rightarrow> string" where
  "stored_name R w file =
     (let original_filename = secure_filename R (filename file)
      in uuid_str (uuid4 R (draws w)) @ ''_'' @ original_filename)"

definition file_path :: "runtime \<Rightarrow> world \<Rightarrow> file_storage \<Rightarrow> string" where
  "file_path R w file = path_join UPLOAD_FOLDER (stored_name R w file)"

definition result :: "bool \<Rightarrow> string \<Rightarrow> response" where
  "result success message =
     jsonify (JDict [(''success'', JBool success), (''message'', JStr message)])"

definition upload_file :: "runtime \<Rightarrow> io \<Rightarrow> request \<Rightarrow> world
    \<Rightarrow> py_exception + response \<times> world" where
  "upload_file R io request w =
     (case map_of (files request) ''file'' of
        None \<Rightarrow> Inr (result False ''No file selected'', w)
      | Some file \<Rightarrow>
          if filename file = [] then Inr (result False ''No file selected'', w)
          else if file_bool file \<and> allowed_file (filename file) then
            (case makedirs (makedirs_fault io) UPLOAD_FOLDER (w\<lparr>draws := Suc (draws w)\<rparr>) of
               Inl e \<Rightarrow> Inl e
             | Inr w' \<Rightarrow>
                 (case save (save_fault io) (stream file) (file_path R w file) w' of
                    (None, w'') \<Rightarrow> Inr (result True ''File uploaded successfully!'', w'')
                  | (Some e, w'') \<Rightarrow>
                      Inr (result False (''Upload failed: '' @ str_exc e), w'')))
          else
            Inr (result False
              ''Invalid file type. Please upload videos (mp4, avi, mov, etc.) or images (jpg, png, etc.)'',
              w))"

subsection \<open>A concrete installation\<close>

text \<open>
  A runtime, a file system and requests on which the handlers can be run: version-4 UUIDs
  that count upwards, file names in ASCII (the folding keeps ASCII as it is), and URLs
  built as Flask builds them for names without special characters.
\<close>

definition demo_runtime :: runtime where
  "demo_runtime =
     \<lparr>uuid4 = (\<lambda>k. 0x1b9d6bcd4bfd4b2d9b5dab8dfbbd4bed + word_of_nat k),
      nfkd_ascii = filter (\<lambda>c. c < CHR 0x80),
      url_for = (\<lambda>endpoint name. ''/'' @ endpoint @ ''/'' @ name)\<rparr>"

definition demo_world :: world where
  "demo_world =
     \<lparr>fs = [([], Dir), ([''static''], Dir), ([''static'', ''videos''], Dir),
            ([''static'', ''videos'', ''b.MP4''], File ''bbb''),
            ([''static'', ''videos'', ''notes.txt''], File ''nnn''),
            ([''static'', ''videos'', ''a.png''], File ''aaa''),
            ([''static'', ''videos'', ''mp4''], File ''mmm'')],
      draws = 2\<rparr>"

definition empty_world :: world where
  "empty_world = \<lparr>fs = [([], Dir)], draws = 0\<rparr>"

definition no_fault :: io where
  "no_fault = \<lparr>makedirs_fault = None, save_fault = None\<rparr>"


definition upload :: "string \<Rightarrow> request" where
  "upload name = \<lparr>files = [(''file'', \<lparr>filename = name, stream = ''data''\<rparr>)]\<rparr>"

text \<open>The demo file system after one more file has been stored in the media directory.\<close>

definition demo_world_after :: "string \<Rightarrow> string \<Rightarrow> world" where
  "demo_world_after name content =
     \<lparr>fs = fs demo_world @ [([''static'', ''videos'', name], File content)], draws = 3\<rparr>"

text \<open>The empty installation after a first file has been stored.\<close>

definition first_upload_world :: "string \<Rightarrow> string \<Rightarrow> world" where
  "first_upload_world name content =
     \<lparr>fs = [([], Dir), ([''static''], Dir), ([''static'', ''videos''], Dir),
            ([''static'', ''videos'', name], File content)],
      draws = 1\<rparr>"

section \<open>Facts about the library functions\<close>

subsection \<open>Splitting names\<close>



lemma split_no_sep: "sep \<notin> set s \<Longrightarrow> split sep s = [s]"
  by (induction s) auto

lemma split_append_sep: "sep \<notin> set a \<Longrightarrow> split sep (a @ sep # b) = a # split sep b"
  by (induction a) auto

lemma split_nonempty: "split sep s \<noteq> []"
  by (induction s) auto

lemma split_Cons_case:
  "split sep (c # cs) =
     (case split sep cs of
        [] \<Rightarrow> []
      | p # ps \<Rightarrow> if c = sep then [] # p # ps else (c # p) # ps)"
  using split_nonempty [of sep cs] by (cases "split sep cs") auto

lemma set_strip: "set (strip chars s) \<subseteq> set s"
proof -
  have "set (strip chars s) \<subseteq> set (dropWhile (\<lambda>c. c \<in> set chars) s)"
    unfolding strip_def using set_dropWhileD by fastforce
  also have "\<dots> \<subseteq> set s"
    using set_dropWhileD by fastforce
  finally show ?thesis .
qed

lemma secure_filename_chars: "set (secure_filename R name) \<subseteq> set safe_chars"
proof -
  have "set (secure_filename R name) \<subseteq>
        set (filter (\<lambda>c. c \<in> set safe_chars)
          (join ''_'' (split_ws [] (map (\<lambda>c. if c = CHR ''/'' then CHR '' '' else c) (nfkd_ascii R name)))))"
    unfolding secure_filename_def by (rule set_strip)
  then show ?thesis by auto
qed

lemma secure_filename_no_slash: "CHR ''/'' \<notin> set (secure_filename R name)"
proof -
  have "CHR ''/'' \<notin> set safe_chars" by (simp add: safe_chars_def)
  with secure_filename_chars [of R name] show ?thesis by blast
qed

lemma length_hex: "length (hex k n) = k"
  by (induction k arbitrary: n) auto

lemma hex_digit_chars: "hex_digit d \<in> set ''0123456789abcdef''"
  unfolding hex_digit_def by (rule nth_mem) simp

lemma hex_chars: "set (hex k n) \<subseteq> set ''0123456789abcdef''"
proof (induction k arbitrary: n)
  case 0
  show ?case by simp
next
  case (Suc k)
  have "set (hex (Suc k) n) = set (hex k (n div 16)) \<union> {hex_digit (n mod 16)}"
    by simp
  with Suc [of "n div 16"] hex_digit_chars [of "n mod 16"] show ?case
    by blast
qed

subsection \<open>UUID strings\<close>

lemma length_uuid_str: "length (uuid_str u) = 36"
  by (simp add: uuid_str_def Let_def length_hex)

lemma hex_no_slash: "CHR ''/'' \<notin> set (hex k n)"
  using hex_chars [of k n] by auto

lemma uuid_str_no_slash: "CHR ''/'' \<notin> set (uuid_str u)"
proof -
  have "CHR ''/'' \<notin> set (take i (drop j (hex 32 (unat u))))" for i j
    using hex_no_slash [of 32 "unat u"] by (meson in_set_takeD in_set_dropD)
  from this [of 8 0] this [of 4 8] this [of 4 12] this [of 4 16] this [of 12 20]
  show ?thesis
    by (simp add: uuid_str_def Let_def length_hex)
qed

lemma hex_digit_inj:
  assumes "a < 16" "b < 16" "hex_digit a = hex_digit b"
  shows "a = b"
proof -
  have "distinct ''0123456789abcdef''" by simp
  moreover have "a < length ''0123456789abcdef''" "b < length ''0123456789abcdef''"
    using assms by simp_all
  moreover have "''0123456789abcdef'' ! a = ''0123456789abcdef'' ! b"
    using assms by (simp add: hex_digit_def)
  ultimately show ?thesis
    by (simp only: nth_eq_iff_index_eq)
qed

lemma hex_inj:
  "n < 16 ^ k \<Longrightarrow> m < 16 ^ k \<Longrightarrow> hex k n = hex k m \<Longrightarrow> n = m"
proof (induction k arbitrary: n m)
  case 0
  then show ?case by simp
next
  case (Suc k)
  from Suc.prems have d: "n div 16 < 16 ^ k" "m div 16 < 16 ^ k"
    by (simp_all add: less_mult_imp_div_less mult.commute)
  from Suc.prems have "hex k (n div 16) = hex k (m div 16)"
    and "hex_digit (n mod 16) = hex_digit (m mod 16)"
    by simp_all
  with d Suc.IH have e: "n div 16 = m div 16" "n mod 16 = m mod 16"
    by (auto intro: hex_digit_inj)
  have "n = n div 16 * 16 + n mod 16" by simp
  also have "\<dots> = m div 16 * 16 + m mod 16" by (simp only: e)
  also have "\<dots> = m" by simp
  finally show ?case .
qed

lemma uuid_groups:
  "take 8 xs @ take 4 (drop 8 xs) @ take 4 (drop 12 xs) @ take 4 (drop 16 xs) @ drop 20 xs = xs"
proof -
  have a: "drop 20 xs = drop 4 (drop 16 xs)" "drop 16 xs = drop 4 (drop 12 xs)"
    "drop 12 xs = drop 4 (drop 8 xs)"
    by simp_all
  have "take 4 (drop 16 xs) @ drop 20 xs = drop 16 xs"
    by (simp only: a(1) append_take_drop_id)
  moreover have "take 4 (drop 12 xs) @ drop 16 xs = drop 12 xs"
    by (simp only: a(2) append_take_drop_id)
  moreover have "take 4 (drop 8 xs) @ drop 12 xs = drop 8 xs"
    by (simp only: a(3) append_take_drop_id)
  ultimately show ?thesis
    by (simp only: append_take_drop_id)
qed

lemma uuid_groups_inj:
  assumes "length h = 32" "length h' = 32"
    and "take 8 h @ ''-'' @ take 4 (drop 8 h) @ ''-'' @ take 4 (drop 12 h) @ ''-'' @
         take 4 (drop 16 h) @ ''-'' @ drop 20 h =
         take 8 h' @ ''-'' @ take 4 (drop 8 h') @ ''-'' @ take 4 (drop 12 h') @ ''-'' @
         take 4 (drop 16 h') @ ''-'' @ drop 20 h'"
  shows "h = h'"
proof -
  from assms have p: "take 8 h = take 8 h'" "take 4 (drop 8 h) = take 4 (drop 8 h')"
    "take 4 (drop 12 h) = take 4 (drop 12 h')" "take 4 (drop 16 h) = take 4 (drop 16 h')"
    "drop 20 h = drop 20 h'"
    by simp_all
  have "h = take 8 h @ take 4 (drop 8 h) @ take 4 (drop 12 h) @ take 4 (drop 16 h) @ drop 20 h"
    by (simp only: uuid_groups)
  also have "\<dots> = take 8 h' @ take 4 (drop 8 h') @ take 4 (drop 12 h') @ take 4 (drop 16 h') @ drop 20 h'"
    by (simp only: p)
  also have "\<dots> = h'"
    by (simp only: uuid_groups)
  finally show ?thesis .
qed

lemma uuid_str_inj: "uuid_str u = uuid_str v \<Longrightarrow> u = v"
proof -
  assume eq: "uuid_str u = uuid_str v"
  have "hex 32 (unat u) = hex 32 (unat v)"
    by (rule uuid_groups_inj) (use eq in \<open>simp_all add: uuid_str_def Let_def length_hex\<close>)
  moreover have "unat u < 16 ^ 32" "unat v < 16 ^ 32"
    using unsigned_less [of u] unsigned_less [of v] by simp_all
  ultimately have "unat u = unat v"
    by (rule hex_inj [rotated 2])
  then show "u = v" by (simp add: word_unat_eq_iff)
qed

subsection \<open>Paths and the file system\<close>

lemma UPLOAD_FOLDER_eq: "UPLOAD_FOLDER = ''static/videos''"
  by (simp add: UPLOAD_FOLDER_def path_join_def)

lemma VIDEO_DIR_eq: "VIDEO_DIR = ''static/videos''"
  by (simp add: VIDEO_DIR_def path_join_def)

lemma resolve_UPLOAD_FOLDER: "resolve UPLOAD_FOLDER = [''static'', ''videos'']"
  by (simp add: UPLOAD_FOLDER_eq resolve_def norm_step_def)

lemma resolve_VIDEO_DIR: "resolve VIDEO_DIR = [''static'', ''videos'']"
  by (simp add: VIDEO_DIR_eq resolve_def norm_step_def)

lemma resolve_child:
  assumes "CHR ''/'' \<notin> set name" "name \<noteq> []" "name \<noteq> ''.''" "name \<noteq> ''..''"
  shows "resolve (path_join UPLOAD_FOLDER name) = resolve UPLOAD_FOLDER @ [name]"
proof -
  from assms have "take 1 name \<noteq> ''/''"
    by (cases name) auto
  then have p: "path_join ''static/videos'' name = ''static/videos/'' @ name"
    by (simp add: path_join_def)
  have "split CHR ''/'' (''static/videos/'' @ name) = [''static'', ''videos'', name]"
    using assms(1) by (simp add: split_no_sep)
  with assms show ?thesis
    by (simp add: p UPLOAD_FOLDER_eq resolve_def norm_step_def)
qed

lemma stored_name_safe:
  "CHR ''/'' \<notin> set (stored_name R w file)"
  "stored_name R w file \<noteq> []" "stored_name R w file \<noteq> ''.''" "stored_name R w file \<noteq> ''..''"
proof -
  show "CHR ''/'' \<notin> set (stored_name R w file)"
    by (simp add: stored_name_def uuid_str_no_slash secure_filename_no_slash)
  have "36 < length (stored_name R w file)"
    by (simp add: stored_name_def length_uuid_str)
  then show "stored_name R w file \<noteq> []" "stored_name R w file \<noteq> ''.''"
    "stored_name R w file \<noteq> ''..''"
    by auto
qed

lemma resolve_file_path:
  "resolve (file_path R w file) = resolve UPLOAD_FOLDER @ [stored_name R w file]"
  unfolding file_path_def by (rule resolve_child) (rule stored_name_safe)+

text \<open>Without the sanitising step the same join leaves the upload directory.\<close>

lemma unsanitized_name_escapes:
  "resolve (path_join UPLOAD_FOLDER ''../../etc/passwd.mp4'') = [''etc'', ''passwd.mp4'']"
proof -
  have "split CHR ''/'' ''static/videos/../../etc/passwd.mp4'' =
          [''static'', ''videos'', ''..'', ''..'', ''etc'', ''passwd.mp4'']"
    by (simp add: split_Cons_case del: split.simps(2))
  then show ?thesis
    by (simp add: UPLOAD_FOLDER_eq path_join_def resolve_def norm_step_def del: split.simps)
qed

lemma map_of_mkdir_missing:
  "map_of (mkdir_missing al p) l =
     (if l = p \<and> map_of al p = None then Some Dir else map_of al l)"
  by (auto simp: mkdir_missing_def map_add_def split: option.splits)

lemma makedirs_UPLOAD_FOLDER:
  assumes "makedirs fault UPLOAD_FOLDER w = Inr w'"
  shows "map_of (fs w') l =
           (if l \<in> {[''static''], [''static'', ''videos'']} \<and> map_of (fs w) l = None
            then Some Dir else map_of (fs w) l)"
    and "map_of (fs w') [''static'', ''videos''] = Some Dir"
    and "draws w' = draws w"
proof -
  have ps: "[Suc 0..<Suc (Suc (Suc 0))] = [Suc 0, Suc (Suc 0)]"
    by (simp add: upt_rec)
  from assms have w': "w' = w\<lparr>fs := mkdir_missing (mkdir_missing (fs w) [''static'']) [''static'', ''videos'']\<rparr>"
    and nf: "\<not> is_file (map_of (fs w) [''static'', ''videos''])"
    by (auto simp: makedirs_def resolve_UPLOAD_FOLDER Let_def ps split: option.splits if_splits)
  show "map_of (fs w') l =
           (if l \<in> {[''static''], [''static'', ''videos'']} \<and> map_of (fs w) l = None
            then Some Dir else map_of (fs w) l)"
    by (auto simp: w' map_of_mkdir_missing)
  show "map_of (fs w') [''static'', ''videos''] = Some Dir"
    using nf by (auto simp: w' map_of_mkdir_missing is_file_def split: option.splits node.splits)
  show "draws w' = draws w"
    by (simp add: w')
qed

lemma save_frame:
  assumes "save fault content dst w = (r, w')"
  shows "l \<noteq> resolve dst \<Longrightarrow> map_of (fs w') l = map_of (fs w) l"
    and "draws w' = draws w"
    and "r = None \<Longrightarrow> map_of (fs w') (resolve dst) = Some (File content)"
  using assms
  by (auto simp: save_def Let_def update_conv' split: option.splits node.splits prod.splits)

lemma listdir_member:
  assumes "map_of (fs w) (resolve path) = Some Dir"
    and "map_of (fs w) (resolve path @ [name]) = Some n"
  shows "\<exists>names. listdir path w = Inr names \<and> name \<in> set names"
proof -
  from assms(2) have "resolve path @ [name] \<in> set (map fst (fs w))"
    by (metis map_of_eq_None_iff option.distinct(1) set_map)
  then have "name \<in> set [last l. l \<leftarrow> remdups (map fst (fs w)), l \<noteq> [] \<and> butlast l = resolve path]"
    by force
  with assms(1) show ?thesis
    by (simp add: listdir_def Let_def)
qed

subsection \<open>The scan of the media directory\<close>


lemma video_files_allowed:
  "video_files w = Inr names \<Longrightarrow> name \<in> set names \<Longrightarrow> allowed_file name"
  by (auto simp: video_files_def split: sum.splits)



subsection \<open>The branches of the upload handler\<close>

lemma save_target:
  assumes "save fault content dst w = (r, w')"
  shows "map_of (fs w') (resolve dst) = map_of (fs w) (resolve dst) \<or>
         (\<exists>c. map_of (fs w') (resolve dst) = Some (File c))"
  using assms
  by (auto simp: save_def Let_def update_conv' split: option.splits node.splits prod.splits)

lemma upload_file_accepted:
  assumes "map_of (files request) ''file'' = Some file"
    and "filename file \<noteq> []"
    and "allowed_file (filename file)"
  shows "upload_file R io request w =
     (case makedirs (makedirs_fault io) UPLOAD_FOLDER (w\<lparr>draws := Suc (draws w)\<rparr>) of
        Inl e \<Rightarrow> Inl e
      | Inr w' \<Rightarrow>
          (case save (save_fault io) (stream file) (file_path R w file) w' of
             (None, w'') \<Rightarrow> Inr (result True ''File uploaded successfully!'', w'')
           | (Some e, w'') \<Rightarrow> Inr (result False (''Upload failed: '' @ str_exc e), w'')))"
  using assms by (simp add: upload_file_def file_bool_def)

lemma upload_file_no_file:
  assumes "map_of (files request) ''file'' = None"
    and "upload_file R io request w = Inr (resp, w')"
  shows "w' = w"
  using assms by (simp add: upload_file_def)

lemma upload_file_rejected:
  assumes "map_of (files request) ''file'' = Some file"
    and "\<not> allowed_file (filename file)"
    and "upload_file R io request w = Inr (resp, w')"
  shows "w' = w"
  using assms by (simp add: upload_file_def split: if_splits)

lemma allowed_file_nonempty: "allowed_file name \<Longrightarrow> name \<noteq> []"
  by (auto simp: allowed_file_def)

lemma upload_file_accepted_cases:
  assumes "map_of (files request) ''file'' = Some file"
    and "allowed_file (filename file)"
    and "upload_file R io request w = Inr (resp, w')"
  obtains w1 r where
    "makedirs (makedirs_fault io) UPLOAD_FOLDER (w\<lparr>draws := Suc (draws w)\<rparr>) = Inr w1"
    "save (save_fault io) (stream file) (file_path R w file) w1 = (r, w')"
    "resp = (case r of None \<Rightarrow> result True ''File uploaded successfully!''
                     | Some e \<Rightarrow> result False (''Upload failed: '' @ str_exc e))"
proof -
  note u = upload_file_accepted [OF assms(1) allowed_file_nonempty [OF assms(2)] assms(2), of R io w]
  from assms(3) u obtain w1 where
    m: "makedirs (makedirs_fault io) UPLOAD_FOLDER (w\<lparr>draws := Suc (draws w)\<rparr>) = Inr w1"
    by (cases "makedirs (makedirs_fault io) UPLOAD_FOLDER (w\<lparr>draws := Suc (draws w)\<rparr>)") simp_all
  obtain r w2 where s: "save (save_fault io) (stream file) (file_path R w file) w1 = (r, w2)"
    by (cases "save (save_fault io) (stream file) (file_path R w file) w1")
  from assms(3) u m s have "w' = w2"
    and "resp = (case r of None \<Rightarrow> result True ''File uploaded successfully!''
                     | Some e \<Rightarrow> result False (''Upload failed: '' @ str_exc e))"
    by (cases r; simp)+
  with m s that show thesis by simp
qed

lemma result_True_neq_False: "result True m \<noteq> result False m'"
  by (simp add: result_def jsonify_def)

lemma upload_success_stored:
  assumes "map_of (files request) ''file'' = Some file"
    and "allowed_file (filename file)"
    and "upload_file R io request w = Inr (result True msg, w')"
  shows "map_of (fs w') (resolve UPLOAD_FOLDER @ [stored_name R w file]) = Some (File (stream file))"
    and "map_of (fs w') (resolve UPLOAD_FOLDER) = Some Dir"
    and "draws w' = Suc (draws w)"
proof -
  from assms obtain w1 r where
    m: "makedirs (makedirs_fault io) UPLOAD_FOLDER (w\<lparr>draws := Suc (draws w)\<rparr>) = Inr w1"
    and s: "save (save_fault io) (stream file) (file_path R w file) w1 = (r, w')"
    and r: "result True msg = (case r of None \<Rightarrow> result True ''File uploaded successfully!''
                     | Some e \<Rightarrow> result False (''Upload failed: '' @ str_exc e))"
    by (rule upload_file_accepted_cases)
  from r have "r = None"
    by (cases r) (simp_all add: result_True_neq_False)
  then show "map_of (fs w') (resolve UPLOAD_FOLDER @ [stored_name R w file]) = Some (File (stream file))"
    using save_frame(3) [OF s] by (simp add: resolve_file_path)
  have "resolve UPLOAD_FOLDER \<noteq> resolve (file_path R w file)"
    by (simp add: resolve_file_path)
  then have "map_of (fs w') (resolve UPLOAD_FOLDER) = map_of (fs w1) (resolve UPLOAD_FOLDER)"
    by (rule save_frame(1) [OF s])
  with makedirs_UPLOAD_FOLDER(2) [OF m] show "map_of (fs w') (resolve UPLOAD_FOLDER) = Some Dir"
    by (simp add: resolve_UPLOAD_FOLDER)
  from save_frame(2) [OF s] makedirs_UPLOAD_FOLDER(3) [OF m] show "draws w' = Suc (draws w)"
    by simp
qed

text \<open>Every request draws at most one UUID, so a later request never reuses the draw of an
  earlier one; two stored names with different draws differ.\<close>

lemma upload_draws:
  assumes "upload_file R io request w = Inr (resp, w')"
  shows "draws w \<le> draws w'"
proof (cases "map_of (files request) ''file''")
  case None
  from upload_file_no_file [OF None assms] show ?thesis by simp
next
  case (Some f)
  show ?thesis
  proof (cases "allowed_file (filename f)")
    case False
    from upload_file_rejected [OF Some False assms] show ?thesis by simp
  next
    case True
    from Some True assms obtain w1 r where
      m: "makedirs (makedirs_fault io) UPLOAD_FOLDER (w\<lparr>draws := Suc (draws w)\<rparr>) = Inr w1"
      and s: "save (save_fault io) (stream f) (file_path R w f) w1 = (r, w')"
      by (rule upload_file_accepted_cases)
    from makedirs_UPLOAD_FOLDER(3) [OF m] save_frame(2) [OF s] show ?thesis
      by simp
  qed
qed

lemma repeated_upload_names_differ:
  assumes "map_of (files request) ''file'' = Some file"
    and "allowed_file (filename file)"
    and "upload_file R io request w = Inr (result True msg, w')"
    and "draws w' \<le> draws w''"
    and "inj_on (uuid4 R) {..draws w''}"
  shows "stored_name R w file \<noteq> stored_name R w'' file'"
proof
  assume e: "stored_name R w file = stored_name R w'' file'"
  from upload_success_stored(3) [OF assms(1-3)] assms(4) have lt: "draws w < draws w''"
    by simp
  then have m: "draws w \<in> {..draws w''}" "draws w'' \<in> {..draws w''}"
    by simp_all
  have "uuid4 R (draws w) \<noteq> uuid4 R (draws w'')"
  proof
    assume "uuid4 R (draws w) = uuid4 R (draws w'')"
    from inj_onD [OF assms(5) this m] lt show False by simp
  qed
  moreover from e have "uuid_str (uuid4 R (draws w)) = uuid_str (uuid4 R (draws w''))"
    by (simp add: stored_name_def length_uuid_str)
  ultimately show False
    by (auto dest: uuid_str_inj)
qed

lemma upload_then_listed:
  assumes "map_of (files request) ''file'' = Some file"
    and "allowed_file (filename file)"
    and "upload_file R io request w = Inr (result True msg, w')"
    and "allowed_file (stored_name R w file)"
  shows "\<exists>names. video_files w' = Inr names \<and> stored_name R w file \<in> set names"
proof -
  have "resolve VIDEO_DIR = resolve UPLOAD_FOLDER"
    by (simp add: resolve_VIDEO_DIR resolve_UPLOAD_FOLDER)
  with upload_success_stored(1,2) [OF assms(1-3)]
  have "map_of (fs w') (resolve VIDEO_DIR) = Some Dir"
    and "map_of (fs w') (resolve VIDEO_DIR @ [stored_name R w file]) = Some (File (stream file))"
    by simp_all
  then obtain entries where "listdir VIDEO_DIR w' = Inr entries"
    and "stored_name R w file \<in> set entries"
    using listdir_member by blast
  with assms(4) show ?thesis
    by (simp add: video_files_def)
qed

subsection \<open>Running the concrete installation\<close>

lemma hex_numeral:
  "hex (numeral k) n = hex (pred_numeral k) (n div 16) @ [hex_digit (n mod 16)]"
  by (simp only: numeral_eq_Suc [of k] hex.simps)

lemma demo_uuids:
  "uuid_str (uuid4 demo_runtime 0) = ''1b9d6bcd-4bfd-4b2d-9b5d-ab8dfbbd4bed''"
  "uuid_str (uuid4 demo_runtime 1) = ''1b9d6bcd-4bfd-4b2d-9b5d-ab8dfbbd4bee''"
  "uuid_str (uuid4 demo_runtime 2) = ''1b9d6bcd-4bfd-4b2d-9b5d-ab8dfbbd4bef''"
  by (simp_all add: demo_runtime_def uuid_str_def hex_numeral hex_digit_def)

lemma demo_secure_filename:
  "secure_filename demo_runtime ''clip.mp4'' = ''clip.mp4''"
  "secure_filename demo_runtime ''../../etc/passwd.mp4'' = ''etc_passwd.mp4''"
  "secure_filename demo_runtime ''.mp4'' = ''mp4''"
  by (simp_all add: secure_filename_def demo_runtime_def strip_def safe_chars_def is_space_def)

lemma demo_allowed:
  "allowed_file ''clip.mp4''" "allowed_file ''../../etc/passwd.mp4''" "allowed_file ''.mp4''"
  "\<not> allowed_file ''malware.exe''" "\<not> allowed_file ''mp4''"
  "\<not> allowed_file ''1b9d6bcd-4bfd-4b2d-9b5d-ab8dfbbd4bed_mp4''"
  by (simp_all add: allowed_file_def rsplit1_def lower_def lower_char_def ALLOWED_EXTENSIONS_def)

lemma demo_makedirs:
  "makedirs None UPLOAD_FOLDER (demo_world\<lparr>draws := n\<rparr>) = Inr (demo_world\<lparr>draws := n\<rparr>)"
  by (simp add: makedirs_def resolve_UPLOAD_FOLDER demo_world_def is_file_def mkdir_missing_def upt_rec)

lemma demo_draws: "draws demo_world = 2"
  by (simp add: demo_world_def)


lemma demo_listdir:
  "listdir VIDEO_DIR demo_world = Inr [''b.MP4'', ''notes.txt'', ''a.png'', ''mp4'']"
  by (simp add: listdir_def resolve_VIDEO_DIR demo_world_def)

lemma demo_save_new:
  assumes "resolve dst = [''static'', ''videos'', stored]"
    and "stored \<notin> {''b.MP4'', ''notes.txt'', ''a.png'', ''mp4''}"
  shows "save None content dst (demo_world\<lparr>draws := 3\<rparr>) = (None, demo_world_after stored content)"
  using assms by (auto simp: save_def Let_def demo_world_def demo_world_after_def)

lemma empty_save_new:
  assumes "resolve dst = [''static'', ''videos'', stored]"
  shows "save None content dst
           \<lparr>fs = [([], Dir), ([''static''], Dir), ([''static'', ''videos''], Dir)], draws = Suc 0\<rparr>
         = (None, first_upload_world stored content)"
  using assms by (auto simp: save_def Let_def first_upload_world_def)

lemma demo_upload_new:
  assumes "allowed_file name"
    and "stored = uuid_str (uuid4 demo_runtime 2) @ ''_'' @ secure_filename demo_runtime name"
    and "stored \<notin> {''b.MP4'', ''notes.txt'', ''a.png'', ''mp4''}"
  shows "upload_file demo_runtime no_fault (upload name) demo_world =
           Inr (result True ''File uploaded successfully!'', demo_world_after stored ''data'')"
proof -
  let ?file = "\<lparr>filename = name, stream = ''data''\<rparr>"
  have f: "map_of (files (upload name)) ''file'' = Some ?file"
    by (simp add: upload_def)
  have st: "stored_name demo_runtime demo_world ?file = stored"
    by (simp add: stored_name_def assms(2) demo_draws)
  have t: "resolve (file_path demo_runtime demo_world ?file) = [''static'', ''videos'', stored]"
    by (simp add: resolve_file_path st resolve_UPLOAD_FOLDER)
  have s: "save None ''data'' (file_path demo_runtime demo_world ?file) (demo_world\<lparr>draws := 3\<rparr>)
           = (None, demo_world_after stored ''data'')"
    using t assms(3) by (rule demo_save_new)
  from assms(1) have a: "allowed_file (filename ?file)" and n: "filename ?file \<noteq> []"
    by (auto dest: allowed_file_nonempty)
  show ?thesis
    by (simp add: upload_file_accepted [OF f n a] no_fault_def demo_draws demo_makedirs s)
qed

lemma empty_makedirs:
  "makedirs None UPLOAD_FOLDER (empty_world\<lparr>draws := n\<rparr>) =
     Inr \<lparr>fs = [([], Dir), ([''static''], Dir), ([''static'', ''videos''], Dir)], draws = n\<rparr>"
  by (simp add: makedirs_def resolve_UPLOAD_FOLDER empty_world_def is_file_def mkdir_missing_def upt_rec)

lemma empty_upload:
  assumes "allowed_file name"
    and "stored = uuid_str (uuid4 demo_runtime 0) @ ''_'' @ secure_filename demo_runtime name"
  shows "upload_file demo_runtime no_fault (upload name) empty_world =
           Inr (result True ''File uploaded successfully!'', first_upload_world stored ''data'')"
proof -
  let ?file = "\<lparr>filename = name, stream = ''data''\<rparr>"
  have f: "map_of (files (upload name)) ''file'' = Some ?file"
    by (simp add: upload_def)
  have st: "stored_name demo_runtime empty_world ?file = stored"
    by (simp add: stored_name_def assms(2) empty_world_def)
  have t: "resolve (file_path demo_runtime empty_world ?file) = [''static'', ''videos'', stored]"
    by (simp add: resolve_file_path st resolve_UPLOAD_FOLDER)
  have s: "save None ''data'' (file_path demo_runtime empty_world ?file)
             \<lparr>fs = [([], Dir), ([''static''], Dir), ([''static'', ''videos''], Dir)], draws = Suc 0\<rparr>
           = (None, first_upload_world stored ''data'')"
    using t by (rule empty_save_new)
  from assms(1) have a: "allowed_file (filename ?file)" and n: "filename ?file \<noteq> []"
    by (auto dest: allowed_file_nonempty)
  have d: "draws empty_world = 0"
    by (simp add: empty_world_def)
  show ?thesis
    by (simp add: upload_file_accepted [OF f n a] no_fault_def d empty_makedirs s)
qed


section \<open>Properties of the upload handler\<close>

text \<open>
  C6. A POST /upload request without a \<open>file\<close> field, and a request whose file has an
  empty file name, are both answered with the JSON body
  \<open>{success: false, message: "No file selected"}\<close> and the HTTP status 200; the file
  system is left as it was.
\<close>

theorem upload_no_file_selected:
  assumes "map_of (files request) ''file'' = None \<or>
           (\<exists>file. map_of (files request) ''file'' = Some file \<and> filename file = [])"
  shows "upload_file R io request w =
           Inr (\<lparr>status = 200,
                 body = Json (JDict [(''success'', JBool False),
                                     (''message'', JStr ''No file selected'')])\<rparr>, w)"
  using assms by (auto simp: upload_file_def result_def jsonify_def)

theorem upload_no_file_selected_witness:
  "map_of (files \<lparr>files = []\<rparr>) ''file'' = None \<and>
   upload_file demo_runtime no_fault \<lparr>files = []\<rparr> demo_world =
     Inr (\<lparr>status = 200,
           body = Json (JDict [(''success'', JBool False),
                               (''message'', JStr ''No file selected'')])\<rparr>, demo_world) \<and>
   filename (the (map_of (files (upload [])) ''file'')) = [] \<and>
   upload_file demo_runtime no_fault (upload []) demo_world =
     Inr (\<lparr>status = 200,
           body = Json (JDict [(''success'', JBool False),
                               (''message'', JStr ''No file selected'')])\<rparr>, demo_world)"
  using upload_no_file_selected [of "\<lparr>files = []\<rparr>" demo_runtime no_fault demo_world]
    upload_no_file_selected [of "upload []" demo_runtime no_fault demo_world]
  by (simp add: upload_def)

text \<open>
  C3. An upload whose file name does not pass the extension check (\<open>malware.exe\<close>, for
  one) is answered with a JSON body whose \<open>success\<close> is false (the message is
  \<open>Invalid file type...\<close>, or \<open>No file selected\<close> for the empty name), status
  200, and the world is returned as it was: no file is written, no directory is created,
  no UUID drawn.
\<close>

theorem upload_rejects_disallowed_extension:
  assumes "map_of (files request) ''file'' = Some file"
    and "\<not> allowed_file (filename file)"
  shows "upload_file R io request w =
           Inr (\<lparr>status = 200,
                 body = Json (JDict
                   [(''success'', JBool False),
                    (''message'', JStr
                       (if filename file = [] then ''No file selected''
                        else ''Invalid file type. Please upload videos (mp4, avi, mov, etc.) or images (jpg, png, etc.)''))])\<rparr>,
                w)"
  using assms by (simp add: upload_file_def result_def jsonify_def)

theorem upload_rejects_disallowed_extension_witness:
  "map_of (files (upload ''malware.exe'')) ''file'' = Some \<lparr>filename = ''malware.exe'', stream = ''data''\<rparr> \<and>
   \<not> allowed_file ''malware.exe'' \<and>
   upload_file demo_runtime no_fault (upload ''malware.exe'') demo_world =
      Inr (\<lparr>status = 200,
            body = Json (JDict
              [(''success'', JBool False),
               (''message'', JStr
                  ''Invalid file type. Please upload videos (mp4, avi, mov, etc.) or images (jpg, png, etc.)'')])\<rparr>,
           demo_world)"
  using upload_rejects_disallowed_extension
    [of "upload ''malware.exe''" "\<lparr>filename = ''malware.exe'', stream = ''data''\<rparr>"
        demo_runtime no_fault demo_world]
  by (simp add: upload_def demo_allowed)





text \<open>
  C5. Whatever the request, the only places of the file system that an upload changes are
  the upload directory and its parent (created as directories when missing) and one file
  directly inside the upload directory: the path handed to \<open>save\<close> resolves to the
  upload directory followed by the stored name, and the stored name has no path separator.
\<close>

theorem upload_writes_inside_upload_folder:
  assumes "upload_file R io request w = Inr (resp, w')"
    and "map_of (fs w') l \<noteq> map_of (fs w) l"
  shows "(l \<in> {[''static''], [''static'', ''videos'']} \<and>
            map_of (fs w) l = None \<and> map_of (fs w') l = Some Dir) \<or>
         (\<exists>file content.
            map_of (files request) ''file'' = Some file \<and> allowed_file (filename file) \<and>
            stored_name R w file =
              uuid_str (uuid4 R (draws w)) @ ''_'' @ secure_filename R (filename file) \<and>
            CHR ''/'' \<notin> set (stored_name R w file) \<and>
            resolve (file_path R w file) = resolve UPLOAD_FOLDER @ [stored_name R w file] \<and>
            l = resolve (file_path R w file) \<and>
            map_of (fs w') l = Some (File content))"
proof (cases "map_of (files request) ''file''")
  case None
  from upload_file_no_file [OF None assms(1)] assms(2) show ?thesis by simp
next
  case (Some f)
  show ?thesis
  proof (cases "allowed_file (filename f)")
    case False
    from upload_file_rejected [OF Some False assms(1)] assms(2) show ?thesis by simp
  next
    case True
    from Some True assms(1) obtain w1 r where
      m: "makedirs (makedirs_fault io) UPLOAD_FOLDER (w\<lparr>draws := Suc (draws w)\<rparr>) = Inr w1"
      and s: "save (save_fault io) (stream f) (file_path R w f) w1 = (r, w')"
      by (rule upload_file_accepted_cases)
    have mk: "map_of (fs w1) l =
           (if l \<in> {[''static''], [''static'', ''videos'']} \<and> map_of (fs w) l = None
            then Some Dir else map_of (fs w) l)"
      using makedirs_UPLOAD_FOLDER(1) [OF m, of l] by simp
    have t: "resolve (file_path R w f) = resolve UPLOAD_FOLDER @ [stored_name R w f]"
      by (rule resolve_file_path)
    show ?thesis
    proof (cases "l = resolve (file_path R w f)")
      case False
      then have "map_of (fs w') l = map_of (fs w1) l"
        by (rule save_frame(1) [OF s])
      with assms(2) mk have "l \<in> {[''static''], [''static'', ''videos'']} \<and>
            map_of (fs w) l = None \<and> map_of (fs w') l = Some Dir"
        by (simp split: if_splits)
      then show ?thesis ..
    next
      case l: True
      with t have "l \<notin> {[''static''], [''static'', ''videos'']}"
        by (simp add: resolve_UPLOAD_FOLDER)
      with mk have "map_of (fs w1) l = map_of (fs w) l"
        by simp
      with save_target [OF s] assms(2) l obtain c where c: "map_of (fs w') l = Some (File c)"
        by auto
      have "stored_name R w f =
              uuid_str (uuid4 R (draws w)) @ ''_'' @ secure_filename R (filename f)"
        by (simp add: stored_name_def)
      with Some True t l c stored_name_safe(1) [of R w f] show ?thesis
        by blast
    qed
  qed
qed

theorem upload_writes_inside_upload_folder_witness:
  "upload_file demo_runtime no_fault (upload ''../../etc/passwd.mp4'') demo_world =
     Inr (result True ''File uploaded successfully!'',
          demo_world_after ''1b9d6bcd-4bfd-4b2d-9b5d-ab8dfbbd4bef_etc_passwd.mp4'' ''data'') \<and>
   map_of (fs (demo_world_after ''1b9d6bcd-4bfd-4b2d-9b5d-ab8dfbbd4bef_etc_passwd.mp4'' ''data''))
      [''static'', ''videos'', ''1b9d6bcd-4bfd-4b2d-9b5d-ab8dfbbd4bef_etc_passwd.mp4'']
    \<noteq> map_of (fs demo_world)
      [''static'', ''videos'', ''1b9d6bcd-4bfd-4b2d-9b5d-ab8dfbbd4bef_etc_passwd.mp4''] \<and>
   (\<exists>file content.
      map_of (files (upload ''../../etc/passwd.mp4'')) ''file'' = Some file \<and>
      allowed_file (filename file) \<and>
      stored_name demo_runtime demo_world file = ''1b9d6bcd-4bfd-4b2d-9b5d-ab8dfbbd4bef_etc_passwd.mp4'' \<and>
      resolve (file_path demo_runtime demo_world file) =
        [''static'', ''videos'', ''1b9d6bcd-4bfd-4b2d-9b5d-ab8dfbbd4bef_etc_passwd.mp4''] \<and>
      map_of (fs (demo_world_after ''1b9d6bcd-4bfd-4b2d-9b5d-ab8dfbbd4bef_etc_passwd.mp4'' ''data''))
        [''static'', ''videos'', ''1b9d6bcd-4bfd-4b2d-9b5d-ab8dfbbd4bef_etc_passwd.mp4'']
        = Some (File content))"
proof -
  let ?name = "''1b9d6bcd-4bfd-4b2d-9b5d-ab8dfbbd4bef_etc_passwd.mp4''"
  let ?l = "[''static'', ''videos'', ?name]"
  let ?w' = "demo_world_after ?name ''data''"
  have u: "upload_file demo_runtime no_fault (upload ''../../etc/passwd.mp4'') demo_world =
             Inr (result True ''File uploaded successfully!'', ?w')"
    by (rule demo_upload_new) (simp_all add: demo_allowed demo_uuids demo_secure_filename)
  have c: "map_of (fs ?w') ?l \<noteq> map_of (fs demo_world) ?l"
    by (simp add: demo_world_after_def demo_world_def)
  have "?l \<notin> {[''static''], [''static'', ''videos'']}"
    by simp
  with upload_writes_inside_upload_folder [OF u c]
  obtain f content where
    "map_of (files (upload ''../../etc/passwd.mp4'')) ''file'' = Some f"
    "allowed_file (filename f)"
    "stored_name demo_runtime demo_world f =
       uuid_str (uuid4 demo_runtime (draws demo_world)) @ ''_'' @
       secure_filename demo_runtime (filename f)"
    "resolve (file_path demo_runtime demo_world f) =
       resolve UPLOAD_FOLDER @ [stored_name demo_runtime demo_world f]"
    "map_of (fs ?w') ?l = Some (File content)"
    by blast
  moreover from this(1) have "filename f = ''../../etc/passwd.mp4''"
    by (auto simp: upload_def)
  ultimately have "map_of (files (upload ''../../etc/passwd.mp4'')) ''file'' = Some f \<and>
      allowed_file (filename f) \<and>
      stored_name demo_runtime demo_world f = ?name \<and>
      resolve (file_path demo_runtime demo_world f) = ?l \<and>
      map_of (fs ?w') ?l = Some (File content)"
    by (simp add: demo_draws demo_uuids demo_secure_filename resolve_UPLOAD_FOLDER)
  with u c show ?thesis
    by blast
qed

section \<open>Properties of the listing routes\<close>





text \<open>
  C10, as stated, fails for the empty file name: it has no dot, but the upload is
  rejected with the message \<open>No file selected\<close>, not as an invalid file type.
\<close>

theorem nodot_upload_counterexample:
  "CHR ''.'' \<notin> set (filename \<lparr>filename = [], stream = ''data''\<rparr>) \<and>
   map_of (files (upload [])) ''file'' = Some \<lparr>filename = [], stream = ''data''\<rparr> \<and>
   upload_file demo_runtime no_fault (upload []) demo_world =
     Inr (result False ''No file selected'', demo_world) \<and>
   upload_file demo_runtime no_fault (upload []) demo_world \<noteq>
     Inr (result False
       ''Invalid file type. Please upload videos (mp4, avi, mov, etc.) or images (jpg, png, etc.)'',
       demo_world)"
  by (simp add: upload_file_def upload_def result_def jsonify_def)

text \<open>
  C10, amended. A file name without a dot never passes the extension check; such a
  directory entry is in no listing (both listing routes render the names of
  \<open>video_files\<close>); an upload with such a name is rejected as an invalid file type when
  the name is not empty, and as \<open>No file selected\<close> when the name is empty. The file
  system is left as it was.
\<close>

theorem nodot_not_allowed:
  assumes "CHR ''.'' \<notin> set name"
  shows "\<not> allowed_file name \<and>
         (\<forall>names. video_files w = Inr names \<longrightarrow> name \<notin> set names) \<and>
         (\<forall>file. map_of (files request) ''file'' = Some file \<and> filename file = name \<and> name \<noteq> [] \<longrightarrow>
            upload_file R io request w =
              Inr (\<lparr>status = 200,
                    body = Json (JDict
                      [(''success'', JBool False),
                       (''message'', JStr
                          ''Invalid file type. Please upload videos (mp4, avi, mov, etc.) or images (jpg, png, etc.)'')])\<rparr>,
                   w)) \<and>
         (\<forall>file. map_of (files request) ''file'' = Some file \<and> filename file = name \<and> name = [] \<longrightarrow>
            upload_file R io request w =
              Inr (\<lparr>status = 200,
                    body = Json (JDict [(''success'', JBool False),
                                        (''message'', JStr ''No file selected'')])\<rparr>, w))"
proof -
  from assms have n: "\<not> allowed_file name"
    by (simp add: allowed_file_def)
  show ?thesis
  proof (intro conjI allI impI)
    show "\<not> allowed_file name" by (rule n)
  next
    fix names
    assume "video_files w = Inr names"
    with n show "name \<notin> set names"
      by (auto dest: video_files_allowed)
  next
    fix f
    assume "map_of (files request) ''file'' = Some f \<and> filename f = name \<and> name \<noteq> []"
    with n show "upload_file R io request w =
              Inr (\<lparr>status = 200,
                    body = Json (JDict
                      [(''success'', JBool False),
                       (''message'', JStr
                          ''Invalid file type. Please upload videos (mp4, avi, mov, etc.) or images (jpg, png, etc.)'')])\<rparr>,
                   w)"
      by (auto simp: upload_file_def result_def jsonify_def)
  next
    fix f
    assume "map_of (files request) ''file'' = Some f \<and> filename f = name \<and> name = []"
    then show "upload_file R io request w =
              Inr (\<lparr>status = 200,
                    body = Json (JDict [(''success'', JBool False),
                                        (''message'', JStr ''No file selected'')])\<rparr>, w)"
      by (auto simp: upload_file_def result_def jsonify_def)
  qed
qed

theorem nodot_not_allowed_witness:
  "CHR ''.'' \<notin> set ''mp4'' \<and>
   \<not> allowed_file ''mp4'' \<and>
   video_files demo_world = Inr [''a.png'', ''b.MP4''] \<and>
   ''mp4'' \<in> set [''b.MP4'', ''notes.txt'', ''a.png'', ''mp4''] \<and>
   ''mp4'' \<notin> set [''a.png'', ''b.MP4''] \<and>
   upload_file demo_runtime no_fault (upload ''mp4'') demo_world =
     Inr (\<lparr>status = 200,
           body = Json (JDict
             [(''success'', JBool False),
              (''message'', JStr
                 ''Invalid file type. Please upload videos (mp4, avi, mov, etc.) or images (jpg, png, etc.)'')])\<rparr>,
          demo_world)"
proof -
  have d: "CHR ''.'' \<notin> set ''mp4''" by simp
  have v: "video_files demo_world = Inr [''a.png'', ''b.MP4'']"
    by (simp add: video_files_def demo_listdir allowed_file_def rsplit1_def lower_def
          lower_char_def ALLOWED_EXTENSIONS_def)
  have f: "map_of (files (upload ''mp4'')) ''file'' = Some \<lparr>filename = ''mp4'', stream = ''data''\<rparr>"
    by (simp add: upload_def)
  from nodot_not_allowed [OF d, of demo_world "upload ''mp4''" demo_runtime no_fault] v f
  show ?thesis by simp
qed

section \<open>Upload followed by listing\<close>

text \<open>
  C8. Uploads are saved in the directory that the listing routes scan, but a stored file
  is listed only when its stored name still passes the extension check
  (\<open>upload_then_listed\<close>). The check of the upload is made on the original name and the
  file is stored under the sanitised name: the upload of \<open>.mp4\<close> is accepted and
  reported as a success, it is stored as \<open><uuid>_mp4\<close>, and neither listing route shows
  it.
\<close>

theorem upload_dot_name_not_listed:
  "allowed_file ''.mp4'' \<and>
   upload_file demo_runtime no_fault (upload ''.mp4'') empty_world =
     Inr (\<lparr>status = 200,
           body = Json (JDict [(''success'', JBool True),
                               (''message'', JStr ''File uploaded successfully!'')])\<rparr>,
          first_upload_world ''1b9d6bcd-4bfd-4b2d-9b5d-ab8dfbbd4bed_mp4'' ''data'') \<and>
   listdir VIDEO_DIR (first_upload_world ''1b9d6bcd-4bfd-4b2d-9b5d-ab8dfbbd4bed_mp4'' ''data'') =
     Inr [''1b9d6bcd-4bfd-4b2d-9b5d-ab8dfbbd4bed_mp4''] \<and>
   get_videos demo_runtime (first_upload_world ''1b9d6bcd-4bfd-4b2d-9b5d-ab8dfbbd4bed_mp4'' ''data'') =
     Inr \<lparr>status = 200, body = Json (JDict [(''videos'', JList [])])\<rparr> \<and>
   index demo_runtime (first_upload_world ''1b9d6bcd-4bfd-4b2d-9b5d-ab8dfbbd4bed_mp4'' ''data'') =
     Inr \<lparr>status = 200, body = Template ''index.html'' []\<rparr>"
proof -
  let ?w = "first_upload_world ''1b9d6bcd-4bfd-4b2d-9b5d-ab8dfbbd4bed_mp4'' ''data''"
  have u: "upload_file demo_runtime no_fault (upload ''.mp4'') empty_world =
      Inr (result True ''File uploaded successfully!'', ?w)"
    by (rule empty_upload) (simp_all add: demo_allowed demo_uuids demo_secure_filename)
  have l: "listdir VIDEO_DIR ?w = Inr [''1b9d6bcd-4bfd-4b2d-9b5d-ab8dfbbd4bed_mp4'']"
    by (simp add: listdir_def resolve_VIDEO_DIR first_upload_world_def)
  have v: "video_files ?w = Inr []"
    by (simp add: video_files_def l demo_allowed)
  show ?thesis
    by (simp add: u l demo_allowed get_videos_def index_def v video_urls_def result_def
          jsonify_def render_template_def)
qed

end
